theory Spec2Isabelle
  imports Complex_Main "HOL-Library.Word"
begin

section \<open>Priority-selector engine (pkg/scheduler/plugins/util/priority)\<close>

text \<open>
  Priorities are Go \<open>int32\<close> values: 32-bit words read in two's complement. The engine
  only compares them, with the signed orders \<open><s\<close> and \<open><=s\<close> of the word library.
\<close>

type_synonym int32 = "32 word"

text \<open>The operator of an expression is a free-form string; the seven constants name the known ones.\<close>

definition OperatorIn :: string where "OperatorIn = ''In''"
definition OperatorNotIn :: string where "OperatorNotIn = ''NotIn''"
definition OperatorBetween :: string where "OperatorBetween = ''Between''"
definition OperatorLt :: string where "OperatorLt = ''Lt''"
definition OperatorGt :: string where "OperatorGt = ''Gt''"
definition OperatorLte :: string where "OperatorLte = ''Lte''"
definition OperatorGte :: string where "OperatorGte = ''Gte''"

record PriorityExpression =
  Operator :: string
  Values :: "int32 list"

text \<open>
  \<open>PriorityExpression.Matches\<close>: a \<open>switch\<close> on the operator string. \<open>slices.Contains\<close> is
  list membership; \<open>Between\<close> needs two values and swaps them when the first is the larger;
  the four comparisons need one value; every other operator string matches nothing.
\<close>

definition PriorityExpression_Matches :: "PriorityExpression \<Rightarrow> int32 \<Rightarrow> bool" where
  "PriorityExpression_Matches expr priority =
     (if Operator expr = OperatorIn then priority \<in> set (Values expr)
      else if Operator expr = OperatorNotIn then priority \<notin> set (Values expr)
      else if Operator expr = OperatorBetween then
        (case Values expr of
           v0 # v1 # _ \<Rightarrow>
             (let (minVal, maxVal) = (if v1 <s v0 then (v1, v0) else (v0, v1))
              in minVal <=s priority \<and> priority <=s maxVal)
         | _ \<Rightarrow> False)
      else if Operator expr = OperatorLt then
        (case Values expr of v0 # _ \<Rightarrow> priority <s v0 | [] \<Rightarrow> False)
      else if Operator expr = OperatorGt then
        (case Values expr of v0 # _ \<Rightarrow> v0 <s priority | [] \<Rightarrow> False)
      else if Operator expr = OperatorLte then
        (case Values expr of v0 # _ \<Rightarrow> priority <=s v0 | [] \<Rightarrow> False)
      else if Operator expr = OperatorGte then
        (case Values expr of v0 # _ \<Rightarrow> v0 <=s priority | [] \<Rightarrow> False)
      else False)"

record PrioritySelector =
  AnyExpressions :: "PriorityExpression list"

text \<open>
  \<open>PrioritySelector.Matches\<close> has a pointer receiver, and every plugin calls it on a
  selector that may be \<open>nil\<close>: the receiver is an option. The loop returns at the first
  expression that matches.
\<close>

fun anyExpressionMatches :: "PriorityExpression list \<Rightarrow> int32 \<Rightarrow> bool" where
  "anyExpressionMatches [] priority = False"
| "anyExpressionMatches (expr # rest) priority =
     (if PriorityExpression_Matches expr priority then True
      else anyExpressionMatches rest priority)"

definition PrioritySelector_Matches :: "PrioritySelector option \<Rightarrow> int32 \<Rightarrow> bool" where
  "PrioritySelector_Matches sel priority =
     (case sel of
        None \<Rightarrow> False
      | Some s \<Rightarrow>
          (if length (AnyExpressions s) = 0 then False
           else anyExpressionMatches (AnyExpressions s) priority))"

section \<open>Host data model\<close>

text \<open>
  The plugins read the scheduler's objects; only the fields they touch are kept. A Go
  \<open>time.Time\<close> is an instant, here the number of nanoseconds since the zero \<open>Time\<close>, so
  \<open>IsZero\<close> is equality with 0 and \<open>Before\<close>, \<open>After\<close>, \<open>Equal\<close> are the order on
  \<open>int\<close>. A \<open>time.Duration\<close> is a count of nanoseconds held in an \<open>int64\<close>. Pointers
  that may be \<open>nil\<close> are options; a Go map from strings is an association list read with
  \<open>map_of\<close>, and reading a \<open>nil\<close> map is reading the empty list.
\<close>

type_synonym time = int
type_synonym Duration = int
type_synonym JobID = string
type_synonym QueueID = string

record Pod =
  pod_Annotations :: "(string \<times> string) list"
  pod_StartTime :: "time option"
  pod_CreationTimestamp :: time

record TaskInfo =
  task_Name :: string
  task_Job :: JobID
  task_Priority :: int32
  task_Pod :: "Pod option"

record SubJobInfo =
  subjob_UID :: string
  subjob_Priority :: int32

record PodGroup =
  pg_Annotations :: "(string \<times> string) list"

text \<open>
  \<open>api.Resource\<close> holds \<open>float64\<close> amounts; they are idealised as rationals. The
  conversion \<open>int64(x)\<close> truncates towards zero; for an amount outside the range of
  \<open>int64\<close> Go leaves the result to the implementation, and it is taken to be the least
  \<open>int64\<close>, as on amd64.
\<close>

record Resource =
  MilliCPU :: rat
  Memory :: rat
  ScalarResources :: "(string \<times> rat) list"

record JobInfo =
  job_UID :: JobID
  job_Queue :: QueueID
  job_Priority :: int32
  job_CreationTimestamp :: time
  job_PodGroup :: "PodGroup option"
  job_Allocated :: "Resource option"
  job_IsPending :: bool
  job_ReadyTaskNum :: int32
  job_WaitingTaskNum :: int32
  job_NumTasks :: nat

text \<open>
  \<open>ssn.Jobs\<close> is a map from job id to job. Looking up an absent id yields the \<open>nil\<close>
  pointer; the jobs stored in the map are not \<open>nil\<close>.
\<close>

record Session =
  Jobs :: "(JobID \<times> JobInfo) list"

definition lookupJob :: "Session \<Rightarrow> JobID \<Rightarrow> JobInfo option" where
  "lookupJob ssn jid = map_of (Jobs ssn) jid"

definition sessionJobs :: "Session \<Rightarrow> JobInfo list" where
  "sessionJobs ssn = map snd (Jobs ssn)"

text \<open>The three votes of \<open>plugins/util\<close>, and the one way a callback can fail.\<close>

datatype vote = Permit | Abstain | Reject

datatype panic = NilPointerDereference

section \<open>ex-priority plugin\<close>

definition SortByPriority :: string where "SortByPriority = ''priority''"
definition SortByCreationTime :: string where "SortByCreationTime = ''creationTime''"
definition BlockingScopeCluster :: string where "BlockingScopeCluster = ''cluster''"
definition BlockingScopeQueue :: string where "BlockingScopeQueue = ''queue''"

record Config =
  SortOrder :: "string list"
  Preemptible :: "PrioritySelector option"
  Reclaimable :: "PrioritySelector option"
  Blocking :: "PrioritySelector option"
  BlockingScope :: string
  MaxRunTimeAnnotationKey :: string

text \<open>
  The plugin arguments, as \<open>framework.Get\<close> sees them: each key is present with a value
  of the expected type, or it is not.
\<close>

record Arguments =
  arg_sortOrder :: "string list option"
  arg_preemptible :: "PrioritySelector option"
  arg_reclaimable :: "PrioritySelector option"
  arg_blocking :: "PrioritySelector option"
  arg_blockingScope :: "string option"
  arg_maxRunTimeAnnotationKey :: "string option"

definition parseArguments :: "Arguments \<Rightarrow> Config" where
  "parseArguments args =
     \<lparr>SortOrder = (case arg_sortOrder args of Some so \<Rightarrow> so | None \<Rightarrow> [SortByPriority]),
      Preemptible = arg_preemptible args,
      Reclaimable = arg_reclaimable args,
      Blocking = arg_blocking args,
      BlockingScope =
        (case arg_blockingScope args of
           Some sc \<Rightarrow>
             (if sc = BlockingScopeCluster \<or> sc = BlockingScopeQueue then sc
              else BlockingScopeQueue)
         | None \<Rightarrow> BlockingScopeQueue),
      MaxRunTimeAnnotationKey =
        (case arg_maxRunTimeAnnotationKey args of Some k \<Rightarrow> k | None \<Rightarrow> [])\<rparr>"

definition getTaskCreationTime :: "TaskInfo option \<Rightarrow> time" where
  "getTaskCreationTime task =
     (case task of
        None \<Rightarrow> 0
      | Some t \<Rightarrow>
          (case task_Pod t of
             None \<Rightarrow> 0
           | Some pod \<Rightarrow>
               (case pod_StartTime pod of
                  Some st \<Rightarrow> st
                | None \<Rightarrow>
                    (if pod_CreationTimestamp pod \<noteq> 0 then pod_CreationTimestamp pod
                     else 0))))"

text \<open>
  \<open>isTaskTimedOut\<close>. \<open>time.ParseDuration\<close> belongs to the Go library: it is the
  parameter \<open>pd\<close>, \<open>None\<close> when the string does not parse.
\<close>

definition isTaskTimedOut ::
  "(string \<Rightarrow> Duration option) \<Rightarrow> Config \<Rightarrow> TaskInfo option \<Rightarrow> time \<Rightarrow> bool" where
  "isTaskTimedOut pd cfg task now =
     (if MaxRunTimeAnnotationKey cfg = [] then False
      else case task of
        None \<Rightarrow> False
      | Some t \<Rightarrow>
          (case task_Pod t of
             None \<Rightarrow> False
           | Some pod \<Rightarrow>
               (case map_of (pod_Annotations pod) (MaxRunTimeAnnotationKey cfg) of
                  None \<Rightarrow> False
                | Some v \<Rightarrow>
                    (if v = [] then False
                     else case pod_StartTime pod of
                       None \<Rightarrow> False
                     | Some st \<Rightarrow>
                         (case pd v of
                            None \<Rightarrow> False
                          | Some maxRunTime \<Rightarrow>
                              (if maxRunTime \<le> 0 then False
                               else \<not> (now < st + maxRunTime)))))))"

text \<open>
  The comparators walk \<open>SortOrder\<close> and return at the first key that separates the two
  arguments; a key that is neither \<open>priority\<close> nor \<open>creationTime\<close> falls through the
  \<open>switch\<close>. The result is Go's \<open>int\<close>, one of -1, 0, 1.
\<close>

fun compareTasksLoop :: "string list \<Rightarrow> TaskInfo \<Rightarrow> TaskInfo \<Rightarrow> int" where
  "compareTasksLoop [] l r = 0"
| "compareTasksLoop (order # rest) l r =
     (if order = SortByPriority then
        (if task_Priority r <s task_Priority l then - 1
         else if task_Priority l <s task_Priority r then 1
         else compareTasksLoop rest l r)
      else if order = SortByCreationTime then
        (let lTime = getTaskCreationTime (Some l);
             rTime = getTaskCreationTime (Some r)
         in if lTime \<noteq> 0 \<and> rTime \<noteq> 0 \<and> lTime \<noteq> rTime then
              (if lTime < rTime then - 1 else 1)
            else compareTasksLoop rest l r)
      else compareTasksLoop rest l r)"

definition compareTasks :: "Config \<Rightarrow> TaskInfo \<Rightarrow> TaskInfo \<Rightarrow> int" where
  "compareTasks cfg l r = compareTasksLoop (SortOrder cfg) l r"

fun compareJobsLoop :: "string list \<Rightarrow> JobInfo \<Rightarrow> JobInfo \<Rightarrow> int" where
  "compareJobsLoop [] l r = 0"
| "compareJobsLoop (order # rest) l r =
     (if order = SortByPriority then
        (if job_Priority r <s job_Priority l then - 1
         else if job_Priority l <s job_Priority r then 1
         else compareJobsLoop rest l r)
      else if order = SortByCreationTime then
        (if job_CreationTimestamp l \<noteq> 0 \<and> job_CreationTimestamp r \<noteq> 0 then
           (if job_CreationTimestamp l < job_CreationTimestamp r then - 1
            else if job_CreationTimestamp r < job_CreationTimestamp l then 1
            else compareJobsLoop rest l r)
         else compareJobsLoop rest l r)
      else compareJobsLoop rest l r)"

definition compareJobs :: "Config \<Rightarrow> JobInfo \<Rightarrow> JobInfo \<Rightarrow> int" where
  "compareJobs cfg l r = compareJobsLoop (SortOrder cfg) l r"

fun compareSubJobsLoop :: "string list \<Rightarrow> SubJobInfo \<Rightarrow> SubJobInfo \<Rightarrow> int" where
  "compareSubJobsLoop [] l r = 0"
| "compareSubJobsLoop (order # rest) l r =
     (if order = SortByPriority then
        (if subjob_Priority r <s subjob_Priority l then - 1
         else if subjob_Priority l <s subjob_Priority r then 1
         else compareSubJobsLoop rest l r)
      else compareSubJobsLoop rest l r)"

definition compareSubJobs :: "Config \<Rightarrow> SubJobInfo \<Rightarrow> SubJobInfo \<Rightarrow> int" where
  "compareSubJobs cfg l r = compareSubJobsLoop (SortOrder cfg) l r"

text \<open>
  \<open>hasBlockingJobAhead\<close> ranges over the session's jobs and returns \<open>true\<close> at the first
  pending job, other than the current one and (in queue scope) of the same queue, whose
  priority matches the blocking selector and is greater than the current job's.
\<close>

fun hasBlockingJobAheadLoop :: "Config \<Rightarrow> JobInfo list \<Rightarrow> JobInfo \<Rightarrow> bool" where
  "hasBlockingJobAheadLoop cfg [] currentJob = False"
| "hasBlockingJobAheadLoop cfg (job # rest) currentJob =
     (if \<not> job_IsPending job then hasBlockingJobAheadLoop cfg rest currentJob
      else if job_UID job = job_UID currentJob then hasBlockingJobAheadLoop cfg rest currentJob
      else if BlockingScope cfg = BlockingScopeQueue \<and> job_Queue job \<noteq> job_Queue currentJob
        then hasBlockingJobAheadLoop cfg rest currentJob
      else if PrioritySelector_Matches (Blocking cfg) (job_Priority job)
              \<and> job_Priority currentJob <s job_Priority job then True
      else hasBlockingJobAheadLoop cfg rest currentJob)"

definition hasBlockingJobAhead :: "Config \<Rightarrow> Session \<Rightarrow> JobInfo \<Rightarrow> bool" where
  "hasBlockingJobAhead cfg ssn currentJob =
     (if Blocking cfg = None then False
      else hasBlockingJobAheadLoop cfg (sessionJobs ssn) currentJob)"

text \<open>
  The callbacks that \<open>OnSessionOpen\<close> registers. \<open>jobEnqueueableFn\<close> and \<open>jobValidFn\<close>
  are registered only when a blocking selector is configured.
\<close>

definition jobEnqueueableFn :: "Config \<Rightarrow> Session \<Rightarrow> JobInfo \<Rightarrow> vote" where
  "jobEnqueueableFn cfg ssn job =
     (if PrioritySelector_Matches (Blocking cfg) (job_Priority job) then Permit
      else if hasBlockingJobAhead cfg ssn job then Reject
      else Abstain)"

record ValidateResult =
  Pass :: bool
  Reason :: string
  Message :: string

definition jobValidFn :: "Config \<Rightarrow> Session \<Rightarrow> JobInfo \<Rightarrow> ValidateResult option" where
  "jobValidFn cfg ssn job =
     (if PrioritySelector_Matches (Blocking cfg) (job_Priority job) then None
      else if hasBlockingJobAhead cfg ssn job then
        Some \<lparr>Pass = False, Reason = ''blocked by higher priority job'',
              Message = ''head-of-line blocking: higher priority job is pending (scope: ''
                        @ BlockingScope cfg @ '')''\<rparr>
      else None)"

definition registeredJobEnqueueableFn ::
  "Config \<Rightarrow> (Session \<Rightarrow> JobInfo \<Rightarrow> vote) option" where
  "registeredJobEnqueueableFn cfg =
     (if Blocking cfg \<noteq> None then Some (jobEnqueueableFn cfg) else None)"

definition registeredJobValidFn ::
  "Config \<Rightarrow> (Session \<Rightarrow> JobInfo \<Rightarrow> ValidateResult option) option" where
  "registeredJobValidFn cfg =
     (if Blocking cfg \<noteq> None then Some (jobValidFn cfg) else None)"

text \<open>
  \<open>preemptableFn\<close> and \<open>reclaimableFn\<close> have the same body, up to the selector that gates
  the victims (\<open>Preemptible\<close>, \<open>Reclaimable\<close>): \<open>victimsLoop\<close> is that body, with the
  selector as \<open>gate\<close>. The jobs of the actor and of each candidate are looked up in
  \<open>ssn.Jobs\<close> and may be \<open>nil\<close>. Every path through the loop body reads a field of the
  candidate's job: the log line of the timed-out branch takes its \<open>Priority\<close> as an
  argument (Go evaluates the arguments of a call before the call, whatever the verbosity),
  the gate takes it too, and the comparison of the two \<open>UID\<close>s reads both jobs. Reading a
  field through \<open>nil\<close> panics.
\<close>

fun victimsLoop ::
  "(string \<Rightarrow> Duration option) \<Rightarrow> Config \<Rightarrow> PrioritySelector option \<Rightarrow> Session \<Rightarrow> time
    \<Rightarrow> TaskInfo \<Rightarrow> JobInfo option \<Rightarrow> TaskInfo list \<Rightarrow> TaskInfo list
    \<Rightarrow> panic + TaskInfo list" where
  "victimsLoop pd cfg gate ssn now actor actorJob [] victims = Inr victims"
| "victimsLoop pd cfg gate ssn now actor actorJob (candidate # rest) victims =
     (let candidateJob = lookupJob ssn (task_Job candidate) in
      if isTaskTimedOut pd cfg (Some candidate) now then
        (case candidateJob of
           None \<Rightarrow> Inl NilPointerDereference
         | Some cj \<Rightarrow>
             victimsLoop pd cfg gate ssn now actor actorJob rest (victims @ [candidate]))
      else
        (case candidateJob of
           None \<Rightarrow> Inl NilPointerDereference
         | Some cj \<Rightarrow>
             (if gate \<noteq> None \<and> \<not> PrioritySelector_Matches gate (job_Priority cj) then
                victimsLoop pd cfg gate ssn now actor actorJob rest victims
              else
                (case actorJob of
                   None \<Rightarrow> Inl NilPointerDereference
                 | Some aj \<Rightarrow>
                     (if job_UID cj \<noteq> job_UID aj then
                        (if job_Priority aj <=s job_Priority cj then
                           victimsLoop pd cfg gate ssn now actor actorJob rest victims
                         else
                           victimsLoop pd cfg gate ssn now actor actorJob rest
                             (victims @ [candidate]))
                      else
                        (if task_Priority actor <=s task_Priority candidate then
                           victimsLoop pd cfg gate ssn now actor actorJob rest victims
                         else
                           victimsLoop pd cfg gate ssn now actor actorJob rest
                             (victims @ [candidate])))))))"

definition preemptableFn ::
  "(string \<Rightarrow> Duration option) \<Rightarrow> Config \<Rightarrow> Session \<Rightarrow> time \<Rightarrow> TaskInfo \<Rightarrow> TaskInfo list
    \<Rightarrow> panic + (TaskInfo list \<times> vote)" where
  "preemptableFn pd cfg ssn now preemptor preemptees =
     (case victimsLoop pd cfg (Preemptible cfg) ssn now preemptor
             (lookupJob ssn (task_Job preemptor)) preemptees [] of
        Inl e \<Rightarrow> Inl e
      | Inr victims \<Rightarrow> Inr (victims, Permit))"


definition jobStarvingFn :: "JobInfo \<Rightarrow> bool" where
  "jobStarvingFn ji \<longleftrightarrow>
     (job_ReadyTaskNum ji + job_WaitingTaskNum ji) <s (of_nat (job_NumTasks ji) :: int32)"

section \<open>time-priority plugin\<close>

record EscalationRule =
  WaitingThreshold :: Duration
  SourcePriority :: "PrioritySelector option"
  TargetPriority :: int32

record RawRule =
  raw_WaitingThreshold :: string
  raw_SourcePriority :: "PrioritySelector option"
  raw_TargetPriority :: int32

text \<open>
  \<open>parseArguments\<close> keeps the raw rules whose threshold parses (\<open>pd\<close> is
  \<open>time.ParseDuration\<close>) to a positive duration and whose source selector is present,
  in their order, and then sorts them by descending threshold.
\<close>

fun collectRules :: "(string \<Rightarrow> Duration option) \<Rightarrow> RawRule list \<Rightarrow> EscalationRule list" where
  "collectRules pd [] = []"
| "collectRules pd (rawRule # rest) =
     (case pd (raw_WaitingThreshold rawRule) of
        None \<Rightarrow> collectRules pd rest
      | Some duration \<Rightarrow>
          (if duration \<le> 0 then collectRules pd rest
           else if raw_SourcePriority rawRule = None then collectRules pd rest
           else \<lparr>WaitingThreshold = duration,
                 SourcePriority = raw_SourcePriority rawRule,
                 TargetPriority = raw_TargetPriority rawRule\<rparr> # collectRules pd rest))"

text \<open>
  \<open>sort.Slice\<close> with \<open>less i j = Rules[i].WaitingThreshold > Rules[j].WaitingThreshold\<close>
  returns some permutation in which no rule comes before a rule of a greater threshold.
  It does not promise stability: on fewer than twelve elements it is an insertion sort,
  which keeps rules of equal threshold in their configuration order, and on more the
  order of such rules is not determined. \<open>rulesDescending\<close> is what every outcome
  satisfies; \<open>sortRules\<close> is the insertion sort, which keeps that order.
\<close>

definition rulesDescending :: "EscalationRule list \<Rightarrow> bool" where
  "rulesDescending rules =
     sorted_wrt (\<lambda>a b. WaitingThreshold b \<le> WaitingThreshold a) rules"

fun insertRule :: "EscalationRule \<Rightarrow> EscalationRule list \<Rightarrow> EscalationRule list" where
  "insertRule r [] = [r]"
| "insertRule r (x # xs) =
     (if WaitingThreshold x \<le> WaitingThreshold r then r # x # xs
      else x # insertRule r xs)"

definition sortRules :: "EscalationRule list \<Rightarrow> EscalationRule list" where
  "sortRules rules = foldr insertRule rules []"

definition timePriority_parseArguments ::
  "(string \<Rightarrow> Duration option) \<Rightarrow> RawRule list option \<Rightarrow> EscalationRule list" where
  "timePriority_parseArguments pd rawRules =
     (case rawRules of
        None \<Rightarrow> []
      | Some rules \<Rightarrow> sortRules (collectRules pd rules))"

text \<open>
  \<open>Time.Sub\<close> returns the difference of two instants as a \<open>Duration\<close>, saturated at the
  least and greatest \<open>int64\<close>.
\<close>

definition minDuration :: Duration where "minDuration = - (2 ^ 63)"
definition maxDuration :: Duration where "maxDuration = 2 ^ 63 - 1"

definition time_Sub :: "time \<Rightarrow> time \<Rightarrow> Duration" where
  "time_Sub t u =
     (if t - u < minDuration then minDuration
      else if maxDuration < t - u then maxDuration
      else t - u)"

definition getWaitingDuration :: "JobInfo option \<Rightarrow> time \<Rightarrow> Duration" where
  "getWaitingDuration job now =
     (case job of
        None \<Rightarrow> 0
      | Some j \<Rightarrow>
          (if job_CreationTimestamp j = 0 then 0
           else time_Sub now (job_CreationTimestamp j)))"

text \<open>
  The inner loop of \<open>OnSessionOpen\<close>: the rules in their stored order; the first one whose
  threshold is reached and whose source selector matches the job's priority gives the new
  priority, and the loop breaks. The result is the job's priority after the loop.
\<close>

fun applyRules :: "EscalationRule list \<Rightarrow> Duration \<Rightarrow> int32 \<Rightarrow> int32" where
  "applyRules [] waitingDuration priority = priority"
| "applyRules (rule # rest) waitingDuration priority =
     (if WaitingThreshold rule \<le> waitingDuration then
        (if PrioritySelector_Matches (SourcePriority rule) priority then TargetPriority rule
         else applyRules rest waitingDuration priority)
      else applyRules rest waitingDuration priority)"

definition escalateJob :: "EscalationRule list \<Rightarrow> time \<Rightarrow> JobInfo \<Rightarrow> JobInfo" where
  "escalateJob rules now job =
     job\<lparr>job_Priority :=
           applyRules rules (getWaitingDuration (Some job) now) (job_Priority job)\<rparr>"

text \<open>
  \<open>OnSessionOpen\<close> rewrites the priority of every job of the session in place; \<open>now\<close>
  is the value of \<open>time.Now()\<close>, read once. With no rule it returns at once. The guard
  \<open>job == nil\<close> of the loop never fires on a session whose map holds jobs.
\<close>

definition timePriority_OnSessionOpen :: "EscalationRule list \<Rightarrow> time \<Rightarrow> Session \<Rightarrow> Session" where
  "timePriority_OnSessionOpen rules now ssn =
     (if length rules = 0 then ssn
      else ssn\<lparr>Jobs := map (\<lambda>(jid, job). (jid, escalateJob rules now job)) (Jobs ssn)\<rparr>)"

section \<open>group-quota plugin\<close>

text \<open>
  A \<open>v1.ResourceList\<close> maps resource names to quantities; a \<open>resource.Quantity\<close> is a
  rational number, compared as such by \<open>Cmp\<close>. Reading an absent name yields the zero
  quantity. \<open>mapSet\<close> is the assignment \<open>m[k] = v\<close>.
\<close>

type_synonym ResourceList = "(string \<times> rat) list"

fun mapSet :: "('k \<times> 'v) list \<Rightarrow> 'k \<Rightarrow> 'v \<Rightarrow> ('k \<times> 'v) list" where
  "mapSet [] k v = [(k, v)]"
| "mapSet ((k', v') # m) k v =
     (if k' = k then (k, v) # m else (k', v') # mapSet m k v)"

definition quantityOf :: "ResourceList \<Rightarrow> string \<Rightarrow> rat" where
  "quantityOf list name = (case map_of list name of None \<Rightarrow> 0 | Some q \<Rightarrow> q)"

definition truncateTowardsZero :: "rat \<Rightarrow> int" where
  "truncateTowardsZero x = (if 0 \<le> x then \<lfloor>x\<rfloor> else \<lceil>x\<rceil>)"

definition toInt64 :: "rat \<Rightarrow> int" where
  "toInt64 x =
     (if - (2 ^ 63) \<le> truncateTowardsZero x \<and> truncateTowardsZero x \<le> 2 ^ 63 - 1
      then truncateTowardsZero x
      else - (2 ^ 63))"

definition ResourceCPU :: string where "ResourceCPU = ''cpu''"
definition ResourceMemory :: string where "ResourceMemory = ''memory''"

fun addScalars :: "ResourceList \<Rightarrow> (string \<times> rat) list \<Rightarrow> ResourceList" where
  "addScalars list [] = list"
| "addScalars list ((name, val) # rest) =
     addScalars (mapSet list name (quantityOf list name + of_int (toInt64 val))) rest"

definition addResourceList :: "ResourceList \<Rightarrow> Resource option \<Rightarrow> ResourceList" where
  "addResourceList list res =
     (case res of
        None \<Rightarrow> list
      | Some r \<Rightarrow>
          (let list1 =
                 (if 0 < MilliCPU r then
                    mapSet list ResourceCPU
                      (quantityOf list ResourceCPU + of_int (toInt64 (MilliCPU r)) / 1000)
                  else list);
               list2 =
                 (if 0 < Memory r then
                    mapSet list1 ResourceMemory
                      (quantityOf list1 ResourceMemory + of_int (toInt64 (Memory r)))
                  else list1)
           in addScalars list2 (ScalarResources r)))"

fun isOverQuota :: "ResourceList \<Rightarrow> ResourceList \<Rightarrow> bool" where
  "isOverQuota usage [] = False"
| "isOverQuota usage ((name, limit) # quota) =
     (case map_of usage name of
        None \<Rightarrow> isOverQuota usage quota
      | Some used \<Rightarrow> (if limit \<le> used then True else isOverQuota usage quota))"

definition getJobGroup :: "JobInfo \<Rightarrow> string \<Rightarrow> string" where
  "getJobGroup job key =
     (case job_PodGroup job of
        None \<Rightarrow> []
      | Some pg \<Rightarrow> (case map_of (pg_Annotations pg) key of None \<Rightarrow> [] | Some g \<Rightarrow> g))"

text \<open>
  The accounting pass of \<open>OnSessionOpen\<close>. \<open>Resource.IsEmpty\<close> belongs to the host: it is
  the parameter \<open>IsEmpty\<close>. A job counts when it holds resources and its pod group carries
  the annotation (\<open>found\<close>); its allocation is added to the usage of the group named by
  the annotation's value.
\<close>

definition isJobAllocated :: "(Resource option \<Rightarrow> bool) \<Rightarrow> JobInfo \<Rightarrow> bool" where
  "isJobAllocated IsEmpty job = (\<not> IsEmpty (job_Allocated job))"

fun accumulateUsage ::
  "(Resource option \<Rightarrow> bool) \<Rightarrow> string \<Rightarrow> JobInfo list \<Rightarrow> (string \<times> ResourceList) list
    \<Rightarrow> (string \<times> ResourceList) list" where
  "accumulateUsage IsEmpty annotationKey [] groupUsage = groupUsage"
| "accumulateUsage IsEmpty annotationKey (job # rest) groupUsage =
     (if \<not> isJobAllocated IsEmpty job then accumulateUsage IsEmpty annotationKey rest groupUsage
      else case job_PodGroup job of
        None \<Rightarrow> accumulateUsage IsEmpty annotationKey rest groupUsage
      | Some pg \<Rightarrow>
          (case map_of (pg_Annotations pg) annotationKey of
             None \<Rightarrow> accumulateUsage IsEmpty annotationKey rest groupUsage
           | Some groupName \<Rightarrow>
               (let usage = (case map_of groupUsage groupName of None \<Rightarrow> [] | Some u \<Rightarrow> u)
                in accumulateUsage IsEmpty annotationKey rest
                     (mapSet groupUsage groupName (addResourceList usage (job_Allocated job))))))"

text \<open>
  \<open>overQuotaGroups\<close> is a \<open>map[string]bool\<close>: a group maps to \<open>true\<close> when its usage is
  over quota, and every other string reads as \<open>false\<close>.
\<close>

definition overQuotaGroups ::
  "(string \<times> ResourceList) list \<Rightarrow> ResourceList \<Rightarrow> string \<Rightarrow> bool" where
  "overQuotaGroups groupUsage quota groupName =
     (case map_of groupUsage groupName of
        None \<Rightarrow> False
      | Some usage \<Rightarrow> isOverQuota usage quota)"

definition jobOrderFn :: "(string \<Rightarrow> bool) \<Rightarrow> string \<Rightarrow> JobInfo \<Rightarrow> JobInfo \<Rightarrow> int" where
  "jobOrderFn overQuota annotationKey l r =
     (let lGroup = getJobGroup l annotationKey;
          rGroup = getJobGroup r annotationKey;
          lOver = overQuota lGroup;
          rOver = overQuota rGroup
      in if lOver \<and> \<not> rOver then 1
         else if \<not> lOver \<and> rOver then - 1
         else 0)"

text \<open>
  \<open>OnSessionOpen\<close>, from the parsed quota table on: the comparator it registers.
\<close>

definition groupquota_OnSessionOpen ::
  "(Resource option \<Rightarrow> bool) \<Rightarrow> string \<Rightarrow> ResourceList \<Rightarrow> Session \<Rightarrow> JobInfo \<Rightarrow> JobInfo \<Rightarrow> int" where
  "groupquota_OnSessionOpen IsEmpty annotationKey quota ssn =
     jobOrderFn
       (overQuotaGroups (accumulateUsage IsEmpty annotationKey (sessionJobs ssn) []) quota)
       annotationKey"

section \<open>Scenarios\<close>

text \<open>Concrete jobs, configurations and sessions, after the scenarios of the specification.\<close>

definition pendingJob :: "JobID \<Rightarrow> QueueID \<Rightarrow> int32 \<Rightarrow> time \<Rightarrow> JobInfo" where
  "pendingJob uid queue priority created =
     \<lparr>job_UID = uid, job_Queue = queue, job_Priority = priority,
      job_CreationTimestamp = created, job_PodGroup = None, job_Allocated = None,
      job_IsPending = True, job_ReadyTaskNum = 0, job_WaitingTaskNum = 0, job_NumTasks = 1\<rparr>"

definition blockingGte100 :: PrioritySelector where
  "blockingGte100 = \<lparr>AnyExpressions = [\<lparr>Operator = ''Gte'', Values = [100]\<rparr>]\<rparr>"

definition blockingConfig :: Config where
  "blockingConfig =
     parseArguments \<lparr>arg_sortOrder = None, arg_preemptible = None, arg_reclaimable = None,
       arg_blocking = Some blockingGte100, arg_blockingScope = None,
       arg_maxRunTimeAnnotationKey = None\<rparr>"

definition blockingSession :: Session where
  "blockingSession =
     \<lparr>Jobs = [(''A'', pendingJob ''A'' ''Q'' 150 0),
              (''B'', pendingJob ''B'' ''Q'' 10 0),
              (''C'', pendingJob ''C'' ''Q2'' 10 0)]\<rparr>"

definition between0to50 :: PrioritySelector where
  "between0to50 = \<lparr>AnyExpressions = [\<lparr>Operator = ''Between'', Values = [0, 50]\<rparr>]\<rparr>"

definition ladderDuration :: "string \<Rightarrow> Duration option" where
  "ladderDuration s =
     (if s = ''10m'' then Some 600000000000
      else if s = ''20m'' then Some 1200000000000
      else if s = ''-10m'' then Some (- 600000000000)
      else None)"

definition ladderRawRules :: "RawRule list" where
  "ladderRawRules =
     [\<lparr>raw_WaitingThreshold = ''10m'', raw_SourcePriority = Some between0to50,
       raw_TargetPriority = 100\<rparr>,
      \<lparr>raw_WaitingThreshold = ''20m'', raw_SourcePriority = Some between0to50,
       raw_TargetPriority = 200\<rparr>]"

definition ladderRules :: "EscalationRule list" where
  "ladderRules = timePriority_parseArguments ladderDuration (Some ladderRawRules)"

definition loweringRawRules :: "RawRule list" where
  "loweringRawRules =
     [\<lparr>raw_WaitingThreshold = ''10m'',
       raw_SourcePriority = Some \<lparr>AnyExpressions = [\<lparr>Operator = ''In'', Values = [100]\<rparr>]\<rparr>,
       raw_TargetPriority = 200\<rparr>,
      \<lparr>raw_WaitingThreshold = ''20m'',
       raw_SourcePriority =
         Some \<lparr>AnyExpressions = [\<lparr>Operator = ''In'', Values = [100, 200]\<rparr>]\<rparr>,
       raw_TargetPriority = 50\<rparr>]"

definition loweringRules :: "EscalationRule list" where
  "loweringRules = timePriority_parseArguments ladderDuration (Some loweringRawRules)"

definition loweringSession :: Session where
  "loweringSession = \<lparr>Jobs = [(''j'', pendingJob ''j'' ''Q'' 100 1)]\<rparr>"

definition ladderSession :: Session where
  "ladderSession = \<lparr>Jobs = [(''j'', pendingJob ''j'' ''Q'' 10 1)]\<rparr>"

text \<open>
  When the body of the victims loop panics on a candidate: the candidate's job is not in
  the session, or the actor's job is not and the candidate reaches the comparison of the
  two jobs, being neither timed out nor turned away by the selector.
\<close>

definition bodyPanics ::
  "(string \<Rightarrow> Duration option) \<Rightarrow> Config \<Rightarrow> PrioritySelector option \<Rightarrow> Session \<Rightarrow> time
    \<Rightarrow> JobInfo option \<Rightarrow> TaskInfo \<Rightarrow> bool" where
  "bodyPanics pd cfg gate ssn now actorJob v =
     (case lookupJob ssn (task_Job v) of
        None \<Rightarrow> True
      | Some vj \<Rightarrow>
          actorJob = None \<and> \<not> isTaskTimedOut pd cfg (Some v) now
          \<and> (gate = None \<or> PrioritySelector_Matches gate (job_Priority vj)))"

section \<open>The eligibility table of the specification\<close>

text \<open>
  The table of section 4.3 of the specification, in its words, to be compared with the
  loop of \<open>preemptableFn\<close>. A victim is timed out when the key is configured, its pod
  carries that annotation, the annotation parses to a positive duration, the pod has a
  start time, and start time plus duration is at most \<open>now\<close>.
\<close>

definition timedOutVictim ::
  "(string \<Rightarrow> Duration option) \<Rightarrow> Config \<Rightarrow> time \<Rightarrow> TaskInfo \<Rightarrow> bool" where
  "timedOutVictim pd cfg now v =
     (MaxRunTimeAnnotationKey cfg \<noteq> []
      \<and> (case task_Pod v of
           None \<Rightarrow> False
         | Some pod \<Rightarrow>
             (case (map_of (pod_Annotations pod) (MaxRunTimeAnnotationKey cfg), pod_StartTime pod) of
                (Some a, Some startTime) \<Rightarrow>
                  (case pd a of
                     Some duration \<Rightarrow> 0 < duration \<and> startTime + duration \<le> now
                   | None \<Rightarrow> False)
              | _ \<Rightarrow> False)))"

text \<open>
  A victim is eligible when it is timed out, or else when the gating selector, if set,
  matches its job's priority and, its job being another job than the actor's, its job's
  priority is below the actor's job's, or, in the same job, its task priority is below the
  actor's.
\<close>

definition eligibleVictim ::
  "(string \<Rightarrow> Duration option) \<Rightarrow> Config \<Rightarrow> PrioritySelector option \<Rightarrow> Session \<Rightarrow> time
    \<Rightarrow> TaskInfo \<Rightarrow> TaskInfo \<Rightarrow> bool" where
  "eligibleVictim pd cfg gate ssn now T v =
     (timedOutVictim pd cfg now v
      \<or> (case (lookupJob ssn (task_Job v), lookupJob ssn (task_Job T)) of
           (Some vJob, Some tJob) \<Rightarrow>
             (gate = None \<or> PrioritySelector_Matches gate (job_Priority vJob))
             \<and> (if job_UID vJob \<noteq> job_UID tJob
                then job_Priority vJob <s job_Priority tJob
                else task_Priority v <s task_Priority T)
         | _ \<Rightarrow> False))"

section \<open>Scenarios of preemption and of group quota\<close>

text \<open>A parser of the two duration strings that the scenarios use, standing for \<open>time.ParseDuration\<close>.\<close>

definition sampleDuration :: "string \<Rightarrow> Duration option" where
  "sampleDuration s =
     (if s = ''1h'' then Some 3600000000000
      else if s = ''30m'' then Some 1800000000000
      else None)"

definition preemptConfig :: Config where
  "preemptConfig =
     parseArguments \<lparr>arg_sortOrder = None,
       arg_preemptible = Some \<lparr>AnyExpressions = [\<lparr>Operator = ''Lt'', Values = [100]\<rparr>]\<rparr>,
       arg_reclaimable = None, arg_blocking = None, arg_blockingScope = None,
       arg_maxRunTimeAnnotationKey = Some ''max-run-time''\<rparr>"

definition preemptSession :: Session where
  "preemptSession =
     \<lparr>Jobs = [(''P'', pendingJob ''P'' ''Q'' 1 0),
              (''H'', pendingJob ''H'' ''Q'' 1000 0),
              (''L'', pendingJob ''L'' ''Q'' 0 0)]\<rparr>"

definition preemptorTask :: TaskInfo where
  "preemptorTask = \<lparr>task_Name = ''p-0'', task_Job = ''P'', task_Priority = 1, task_Pod = None\<rparr>"

definition overdueTask :: TaskInfo where
  "overdueTask =
     \<lparr>task_Name = ''h-0'', task_Job = ''H'', task_Priority = 1,
      task_Pod = Some \<lparr>pod_Annotations = [(''max-run-time'', ''1h'')],
                       pod_StartTime = Some 2800000000000, pod_CreationTimestamp = 0\<rparr>\<rparr>"

definition highTask :: TaskInfo where
  "highTask = \<lparr>task_Name = ''h-1'', task_Job = ''H'', task_Priority = 1, task_Pod = None\<rparr>"

definition lowTask :: TaskInfo where
  "lowTask = \<lparr>task_Name = ''l-0'', task_Job = ''L'', task_Priority = 1, task_Pod = None\<rparr>"


definition overdueStrayTask :: TaskInfo where
  "overdueStrayTask =
     \<lparr>task_Name = ''s-1'', task_Job = ''S'', task_Priority = 0,
      task_Pod = Some \<lparr>pod_Annotations = [(''max-run-time'', ''1h'')],
                       pod_StartTime = Some 2800000000000, pod_CreationTimestamp = 0\<rparr>\<rparr>"

definition oneCpu :: Resource where
  "oneCpu = \<lparr>MilliCPU = 1000, Memory = 0, ScalarResources = []\<rparr>"

text \<open>An instance of the host's \<open>Resource.IsEmpty\<close>: no amount reaches a tenth of a unit.\<close>

definition belowMinResource :: "Resource option \<Rightarrow> bool" where
  "belowMinResource res =
     (case res of
        None \<Rightarrow> True
      | Some r \<Rightarrow> MilliCPU r < 1 / 10 \<and> Memory r < 1 / 10
                  \<and> list_all (\<lambda>(name, val). val < 1 / 10) (ScalarResources r))"

definition groupJob :: "JobID \<Rightarrow> (string \<times> string) list \<Rightarrow> Resource option \<Rightarrow> JobInfo" where
  "groupJob uid annotations allocated =
     \<lparr>job_UID = uid, job_Queue = ''Q'', job_Priority = 0, job_CreationTimestamp = 0,
      job_PodGroup = Some \<lparr>pg_Annotations = annotations\<rparr>, job_Allocated = allocated,
      job_IsPending = (allocated = None), job_ReadyTaskNum = 0, job_WaitingTaskNum = 0,
      job_NumTasks = 1\<rparr>"

definition teamASession :: Session where
  "teamASession =
     \<lparr>Jobs = [(''R'', groupJob ''R'' [(''team'', ''a'')] (Some oneCpu)),
              (''A'', groupJob ''A'' [(''team'', ''a'')] None),
              (''B'', groupJob ''B'' [(''team'', ''b'')] None),
              (''N'', groupJob ''N'' [] None)]\<rparr>"

definition emptyNameSession :: Session where
  "emptyNameSession =
     \<lparr>Jobs = [(''R'', groupJob ''R'' [(''team'', [])] (Some oneCpu)),
              (''B'', groupJob ''B'' [(''team'', ''b'')] None),
              (''N'', groupJob ''N'' [] None)]\<rparr>"

section \<open>Properties of the selector engine\<close>

lemma anyExpressionMatches_iff:
  "anyExpressionMatches es p \<longleftrightarrow> (\<exists>e \<in> set es. PriorityExpression_Matches e p)"
  by (induction es) auto

lemma PrioritySelector_Matches_Some:
  "PrioritySelector_Matches (Some s) p \<longleftrightarrow>
     (\<exists>e \<in> set (AnyExpressions s). PriorityExpression_Matches e p)"
  by (cases "AnyExpressions s") (auto simp: PrioritySelector_Matches_def anyExpressionMatches_iff)

text \<open>
  C7. A selector that is nil, or that has no expressions, matches no priority; a selector
  with expressions matches a priority exactly when at least one of its expressions does.
\<close>

theorem C7_selector_matches_is_or:
  "PrioritySelector_Matches None p = False
   \<and> PrioritySelector_Matches (Some \<lparr>AnyExpressions = []\<rparr>) p = False
   \<and> (PrioritySelector_Matches (Some s) p
        \<longleftrightarrow> (\<exists>e \<in> set (AnyExpressions s). PriorityExpression_Matches e p))"
  using PrioritySelector_Matches_Some [of s p]
  by (simp add: PrioritySelector_Matches_def)

theorem C7_selector_matches_is_or_witness:
  "PrioritySelector_Matches None 5 = False
   \<and> PrioritySelector_Matches (Some \<lparr>AnyExpressions = []\<rparr>) 5 = False
   \<and> PrioritySelector_Matches
        (Some \<lparr>AnyExpressions = [\<lparr>Operator = ''Lt'', Values = [0]\<rparr>,
                                  \<lparr>Operator = ''In'', Values = [5]\<rparr>]\<rparr>) 5"
proof -
  have "PriorityExpression_Matches \<lparr>Operator = ''In'', Values = [5]\<rparr> 5"
    by (simp add: PriorityExpression_Matches_def OperatorIn_def)
  then show ?thesis
    using C7_selector_matches_is_or
      [of 5 "\<lparr>AnyExpressions = [\<lparr>Operator = ''Lt'', Values = [0]\<rparr>,
                                 \<lparr>Operator = ''In'', Values = [5]\<rparr>]\<rparr>"]
    by simp
qed

text \<open>
  C8. For \<open>a \<le> b\<close> (signed), a \<open>Between\<close> expression with values \<open>[a, b]\<close> matches \<open>p\<close>
  exactly when \<open>a \<le> p \<le> b\<close>, and the expression with the values swapped, \<open>[b, a]\<close>,
  matches the same priorities.
\<close>

theorem C8_between_normalised:
  assumes "a <=s b"
  shows "(PriorityExpression_Matches \<lparr>Operator = OperatorBetween, Values = [a, b]\<rparr> p
            \<longleftrightarrow> a <=s p \<and> p <=s b)
         \<and> (PriorityExpression_Matches \<lparr>Operator = OperatorBetween, Values = [b, a]\<rparr> p
            \<longleftrightarrow> PriorityExpression_Matches \<lparr>Operator = OperatorBetween, Values = [a, b]\<rparr> p)"
  using assms
  by (auto simp: PriorityExpression_Matches_def OperatorBetween_def OperatorIn_def
      OperatorNotIn_def word_sle_eq word_sless_alt)

theorem C8_between_normalised_witness:
  "(1::int32) <=s 3
   \<and> PriorityExpression_Matches \<lparr>Operator = OperatorBetween, Values = [1, 3]\<rparr> 2
   \<and> PriorityExpression_Matches \<lparr>Operator = OperatorBetween, Values = [3, 1]\<rparr> 2
   \<and> \<not> PriorityExpression_Matches \<lparr>Operator = OperatorBetween, Values = [3, 1]\<rparr> 4"
proof -
  have h: "(1::int32) <=s 3" by (simp add: word_sle_eq)
  show ?thesis
    using h C8_between_normalised [OF h, of 2] C8_between_normalised [OF h, of 4]
    by (simp add: word_sle_eq)
qed

section \<open>Properties of the ex-priority comparators\<close>

lemma compareTasksLoop_flip: "sgn (compareTasksLoop so l r) = - sgn (compareTasksLoop so r l)"
  by (induction so) (auto simp: Let_def dest: signed.less_asym)

lemma compareTasksLoop_same: "compareTasksLoop so x x = 0"
  by (induction so) (auto simp: Let_def)

lemma compareJobsLoop_flip: "sgn (compareJobsLoop so l r) = - sgn (compareJobsLoop so r l)"
  by (induction so) (auto dest: signed.less_asym)

lemma compareJobsLoop_same: "compareJobsLoop so x x = 0"
  by (induction so) auto

lemma compareSubJobsLoop_flip:
  "sgn (compareSubJobsLoop so l r) = - sgn (compareSubJobsLoop so r l)"
  by (induction so) (auto dest: signed.less_asym)

lemma compareSubJobsLoop_same: "compareSubJobsLoop so x x = 0"
  by (induction so) auto

text \<open>
  C9. For every configuration (so every sort order, whatever strings it lists) and all
  tasks, jobs and sub-jobs, the comparator's sign flips when its arguments are swapped,
  and an object compares equal to itself.
\<close>

theorem C9_comparators_antisymmetric:
  "sgn (compareTasks cfg ta tb) = - sgn (compareTasks cfg tb ta)
   \<and> compareTasks cfg tx tx = 0
   \<and> sgn (compareJobs cfg ja jb) = - sgn (compareJobs cfg jb ja)
   \<and> compareJobs cfg jx jx = 0
   \<and> sgn (compareSubJobs cfg sa sb) = - sgn (compareSubJobs cfg sb sa)
   \<and> compareSubJobs cfg sx sx = 0"
  unfolding compareTasks_def compareJobs_def compareSubJobs_def
  using compareTasksLoop_flip [of "SortOrder cfg" ta tb]
    compareJobsLoop_flip [of "SortOrder cfg" ja jb]
    compareSubJobsLoop_flip [of "SortOrder cfg" sa sb]
  by (simp add: compareTasksLoop_same compareJobsLoop_same compareSubJobsLoop_same)

theorem C9_comparators_antisymmetric_witness:
  "compareJobs blockingConfig (pendingJob ''A'' ''Q'' 150 0) (pendingJob ''B'' ''Q'' 10 0) = - 1
   \<and> sgn (compareJobs blockingConfig (pendingJob ''B'' ''Q'' 10 0) (pendingJob ''A'' ''Q'' 150 0)) = 1
   \<and> compareJobs blockingConfig (pendingJob ''A'' ''Q'' 150 0) (pendingJob ''A'' ''Q'' 150 0) = 0"
proof -
  have "compareJobs blockingConfig (pendingJob ''A'' ''Q'' 150 0) (pendingJob ''B'' ''Q'' 10 0) = - 1"
    by (simp add: compareJobs_def blockingConfig_def parseArguments_def pendingJob_def
        SortByPriority_def word_sless_alt)
  then show ?thesis
    using C9_comparators_antisymmetric [of blockingConfig _ _ _ "pendingJob ''A'' ''Q'' 150 0"
        "pendingJob ''B'' ''Q'' 10 0" "pendingJob ''A'' ''Q'' 150 0"]
    by simp
qed

section \<open>Head-of-line blocking\<close>

lemma hasBlockingJobAheadLoop_iff:
  "hasBlockingJobAheadLoop cfg js cur \<longleftrightarrow>
     (\<exists>j \<in> set js. job_IsPending j \<and> job_UID j \<noteq> job_UID cur
        \<and> (BlockingScope cfg = BlockingScopeQueue \<longrightarrow> job_Queue j = job_Queue cur)
        \<and> PrioritySelector_Matches (Blocking cfg) (job_Priority j)
        \<and> job_Priority cur <s job_Priority j)"
  by (induction js) auto

text \<open>
  C2. With a blocking selector configured, \<open>jobEnqueueableFn\<close> is registered, and for
  every job \<open>J\<close> it permits \<open>J\<close> when \<open>J\<close>'s priority matches the selector; otherwise it
  rejects \<open>J\<close> exactly when the session holds a pending job other than \<open>J\<close> whose priority
  matches the selector and is greater than \<open>J\<close>'s and which, when the scope is
  \<open>queue\<close>, is in \<open>J\<close>'s queue; otherwise it abstains. In any other scope the queue
  plays no part.
\<close>

theorem C2_head_of_line_blocking:
  assumes "Blocking cfg = Some sel"
  shows "registeredJobEnqueueableFn cfg = Some (jobEnqueueableFn cfg)
    \<and> jobEnqueueableFn cfg ssn J =
       (if PrioritySelector_Matches (Some sel) (job_Priority J) then Permit
        else if (\<exists>j \<in> set (sessionJobs ssn).
                   job_IsPending j \<and> job_UID j \<noteq> job_UID J
                   \<and> PrioritySelector_Matches (Some sel) (job_Priority j)
                   \<and> job_Priority J <s job_Priority j
                   \<and> (BlockingScope cfg = BlockingScopeQueue \<longrightarrow> job_Queue j = job_Queue J))
        then Reject
        else Abstain)"
  using assms
  by (auto simp: registeredJobEnqueueableFn_def jobEnqueueableFn_def hasBlockingJobAhead_def
      hasBlockingJobAheadLoop_iff)

theorem C2_head_of_line_blocking_witness:
  "Blocking blockingConfig = Some blockingGte100
   \<and> jobEnqueueableFn blockingConfig blockingSession (pendingJob ''B'' ''Q'' 10 0) = Reject
   \<and> jobEnqueueableFn blockingConfig blockingSession (pendingJob ''A'' ''Q'' 150 0) = Permit
   \<and> jobEnqueueableFn blockingConfig blockingSession (pendingJob ''C'' ''Q2'' 10 0) = Abstain"
proof -
  have h: "Blocking blockingConfig = Some blockingGte100"
    by (simp add: blockingConfig_def parseArguments_def)
  have s: "BlockingScope blockingConfig = BlockingScopeQueue"
    by (simp add: blockingConfig_def parseArguments_def)
  show ?thesis
    using h s C2_head_of_line_blocking [OF h, of blockingSession "pendingJob ''B'' ''Q'' 10 0"]
      C2_head_of_line_blocking [OF h, of blockingSession "pendingJob ''A'' ''Q'' 150 0"]
      C2_head_of_line_blocking [OF h, of blockingSession "pendingJob ''C'' ''Q2'' 10 0"]
    by (simp add: blockingSession_def sessionJobs_def pendingJob_def blockingGte100_def
        PrioritySelector_Matches_def PriorityExpression_Matches_def OperatorIn_def
        OperatorNotIn_def OperatorBetween_def OperatorLt_def OperatorGt_def OperatorLte_def
        OperatorGte_def word_sle_eq word_sless_alt)
qed

section \<open>Properties of time-priority\<close>

lemma insertRule_set: "set (insertRule r rs) = insert r (set rs)"
  by (induction rs) auto

lemma insertRule_descending: "rulesDescending rs \<Longrightarrow> rulesDescending (insertRule r rs)"
  by (induction rs) (auto simp: rulesDescending_def insertRule_set)

lemma sortRules_descending: "rulesDescending (sortRules rs)"
  unfolding sortRules_def
  by (induction rs) (auto simp: insertRule_descending, simp add: rulesDescending_def)

text \<open>
  Whatever the raw rules, \<open>parseArguments\<close> stores the rules in descending order of
  threshold, and every stored rule has a positive threshold and a source selector.
\<close>

lemma parseArguments_descending: "rulesDescending (timePriority_parseArguments pd raw)"
  by (cases raw) (auto simp: timePriority_parseArguments_def sortRules_descending,
      simp add: rulesDescending_def)

lemma collectRules_positive:
  "r \<in> set (collectRules pd raw) \<Longrightarrow> 0 < WaitingThreshold r \<and> SourcePriority r \<noteq> None"
  by (induction raw) (auto split: option.splits if_splits)

lemma sortRules_set: "set (sortRules rs) = set rs"
  unfolding sortRules_def by (induction rs) (auto simp: insertRule_set)

lemma applyRules_none:
  "\<forall>r \<in> set rules. \<not> (WaitingThreshold r \<le> w \<and> PrioritySelector_Matches (SourcePriority r) p)
   \<Longrightarrow> applyRules rules w p = p"
  by (induction rules) auto

lemma applyRules_greatest:
  assumes "rulesDescending rules" "r \<in> set rules"
    "WaitingThreshold r \<le> w" "PrioritySelector_Matches (SourcePriority r) p"
    "\<forall>r' \<in> set rules. WaitingThreshold r' \<le> w \<and> PrioritySelector_Matches (SourcePriority r') p
        \<and> r' \<noteq> r \<longrightarrow> WaitingThreshold r' < WaitingThreshold r"
  shows "applyRules rules w p = TargetPriority r"
  using assms
proof (induction rules)
  case Nil
  then show ?case by simp
next
  case (Cons x xs)
  show ?case
  proof (cases "x = r")
    case True
    with Cons.prems show ?thesis by simp
  next
    case False
    with Cons.prems have rin: "r \<in> set xs" by simp
    from Cons.prems(1) rin have le: "WaitingThreshold r \<le> WaitingThreshold x"
      by (auto simp: rulesDescending_def)
    have nq: "\<not> (WaitingThreshold x \<le> w \<and> PrioritySelector_Matches (SourcePriority x) p)"
    proof
      assume "WaitingThreshold x \<le> w \<and> PrioritySelector_Matches (SourcePriority x) p"
      with Cons.prems(5) False have "WaitingThreshold x < WaitingThreshold r" by simp
      with le show False by simp
    qed
    have "applyRules xs w p = TargetPriority r"
    proof (rule Cons.IH)
      show "rulesDescending xs" using Cons.prems(1) by (simp add: rulesDescending_def)
      show "r \<in> set xs" by (rule rin)
      show "WaitingThreshold r \<le> w" by (rule Cons.prems(3))
      show "PrioritySelector_Matches (SourcePriority r) p" by (rule Cons.prems(4))
      show "\<forall>r' \<in> set xs. WaitingThreshold r' \<le> w \<and> PrioritySelector_Matches (SourcePriority r') p
        \<and> r' \<noteq> r \<longrightarrow> WaitingThreshold r' < WaitingThreshold r"
        using Cons.prems(5) by simp
    qed
    with nq show ?thesis by auto
  qed
qed

lemma applyRules_some_greatest:
  assumes "rulesDescending rules"
    "\<exists>r \<in> set rules. WaitingThreshold r \<le> w \<and> PrioritySelector_Matches (SourcePriority r) p"
  shows "\<exists>r \<in> set rules. WaitingThreshold r \<le> w \<and> PrioritySelector_Matches (SourcePriority r) p
           \<and> (\<forall>r' \<in> set rules. WaitingThreshold r' \<le> w
                  \<and> PrioritySelector_Matches (SourcePriority r') p
                  \<longrightarrow> WaitingThreshold r' \<le> WaitingThreshold r)
           \<and> applyRules rules w p = TargetPriority r"
  using assms
proof (induction rules)
  case Nil
  then show ?case by simp
next
  case (Cons x xs)
  show ?case
  proof (cases "WaitingThreshold x \<le> w \<and> PrioritySelector_Matches (SourcePriority x) p")
    case True
    moreover have "\<forall>r' \<in> set (x # xs). WaitingThreshold r' \<le> WaitingThreshold x"
      using Cons.prems(1) by (auto simp: rulesDescending_def)
    ultimately show ?thesis by auto
  next
    case False
    with Cons.prems(2) have ex: "\<exists>r \<in> set xs. WaitingThreshold r \<le> w
        \<and> PrioritySelector_Matches (SourcePriority r) p" by auto
    have d: "rulesDescending xs" using Cons.prems(1) by (simp add: rulesDescending_def)
    from Cons.IH [OF d ex] obtain r where r: "r \<in> set xs" "WaitingThreshold r \<le> w"
      "PrioritySelector_Matches (SourcePriority r) p"
      "\<forall>r' \<in> set xs. WaitingThreshold r' \<le> w
                  \<and> PrioritySelector_Matches (SourcePriority r') p
                  \<longrightarrow> WaitingThreshold r' \<le> WaitingThreshold r"
      "applyRules xs w p = TargetPriority r" by blast
    have "applyRules (x # xs) w p = TargetPriority r" using False r(5) by auto
    with r False show ?thesis by auto
  qed
qed

lemma time_Sub_exact:
  "minDuration \<le> t - u \<Longrightarrow> t - u \<le> maxDuration \<Longrightarrow> time_Sub t u = t - u"
  by (simp add: time_Sub_def)

lemma OnSessionOpen_Jobs:
  "Jobs (timePriority_OnSessionOpen rules now ssn) =
     map (\<lambda>(jid, job). (jid, escalateJob rules now job)) (Jobs ssn)"
proof (cases rules)
  case Nil
  have idm: "map (\<lambda>(jid, job). (jid, escalateJob [] now job)) js = js" for js
    by (induction js) (auto simp: escalateJob_def)
  show ?thesis
    unfolding Nil idm by (simp add: timePriority_OnSessionOpen_def)
next
  case (Cons r rs)
  then show ?thesis by (simp add: timePriority_OnSessionOpen_def)
qed

text \<open>
  C3. Let the rules be stored in descending order of threshold, as \<open>parseArguments\<close>
  leaves them. The session-open pass replaces each job \<open>J\<close> of the session by
  \<open>escalateJob rules now J\<close>, which differs from \<open>J\<close> in its priority only. With \<open>w\<close>
  the waiting duration of \<open>J\<close> (0 for a nil job and for a zero creation timestamp,
  \<open>now - creationTimestamp\<close> when that fits a \<open>Duration\<close>): if a rule \<open>r\<close> has its
  threshold at most \<open>w\<close> and a source selector matching \<open>J\<close>'s priority before the pass,
  and every other such rule has a smaller threshold, the new priority is \<open>r\<close>'s target;
  whenever some rule is such, the new priority is the target of one of greatest threshold
  among them; and if no rule is such, the priority is unchanged.
\<close>

theorem C3_rule_selection:
  assumes "rulesDescending rules"
  shows "Jobs (timePriority_OnSessionOpen rules now ssn) =
           map (\<lambda>(jid, job). (jid, escalateJob rules now job)) (Jobs ssn)
    \<and> escalateJob rules now J = J\<lparr>job_Priority := job_Priority (escalateJob rules now J)\<rparr>
    \<and> getWaitingDuration None now = 0
    \<and> (job_CreationTimestamp J = 0 \<longrightarrow> getWaitingDuration (Some J) now = 0)
    \<and> (job_CreationTimestamp J \<noteq> 0 \<and> minDuration \<le> now - job_CreationTimestamp J
          \<and> now - job_CreationTimestamp J \<le> maxDuration
        \<longrightarrow> getWaitingDuration (Some J) now = now - job_CreationTimestamp J)
    \<and> (\<forall>r \<in> set rules.
          WaitingThreshold r \<le> getWaitingDuration (Some J) now
          \<and> PrioritySelector_Matches (SourcePriority r) (job_Priority J)
          \<and> (\<forall>r' \<in> set rules.
                WaitingThreshold r' \<le> getWaitingDuration (Some J) now
                \<and> PrioritySelector_Matches (SourcePriority r') (job_Priority J) \<and> r' \<noteq> r
                \<longrightarrow> WaitingThreshold r' < WaitingThreshold r)
          \<longrightarrow> job_Priority (escalateJob rules now J) = TargetPriority r)
    \<and> ((\<exists>r \<in> set rules.
            WaitingThreshold r \<le> getWaitingDuration (Some J) now
            \<and> PrioritySelector_Matches (SourcePriority r) (job_Priority J))
        \<longrightarrow> (\<exists>r \<in> set rules.
               WaitingThreshold r \<le> getWaitingDuration (Some J) now
               \<and> PrioritySelector_Matches (SourcePriority r) (job_Priority J)
               \<and> (\<forall>r' \<in> set rules.
                     WaitingThreshold r' \<le> getWaitingDuration (Some J) now
                     \<and> PrioritySelector_Matches (SourcePriority r') (job_Priority J)
                     \<longrightarrow> WaitingThreshold r' \<le> WaitingThreshold r)
               \<and> job_Priority (escalateJob rules now J) = TargetPriority r))
    \<and> ((\<forall>r \<in> set rules.
           \<not> (WaitingThreshold r \<le> getWaitingDuration (Some J) now
              \<and> PrioritySelector_Matches (SourcePriority r) (job_Priority J)))
        \<longrightarrow> job_Priority (escalateJob rules now J) = job_Priority J)"
proof -
  have a: "job_Priority (escalateJob rules now J) =
      applyRules rules (getWaitingDuration (Some J) now) (job_Priority J)"
    by (simp add: escalateJob_def)
  have b: "escalateJob rules now J = J\<lparr>job_Priority := job_Priority (escalateJob rules now J)\<rparr>"
    by (simp add: escalateJob_def)
  have c: "\<forall>r \<in> set rules.
          WaitingThreshold r \<le> getWaitingDuration (Some J) now
          \<and> PrioritySelector_Matches (SourcePriority r) (job_Priority J)
          \<and> (\<forall>r' \<in> set rules.
                WaitingThreshold r' \<le> getWaitingDuration (Some J) now
                \<and> PrioritySelector_Matches (SourcePriority r') (job_Priority J) \<and> r' \<noteq> r
                \<longrightarrow> WaitingThreshold r' < WaitingThreshold r)
          \<longrightarrow> job_Priority (escalateJob rules now J) = TargetPriority r"
    unfolding a using applyRules_greatest [OF assms] by blast
  have d: "(\<forall>r \<in> set rules.
           \<not> (WaitingThreshold r \<le> getWaitingDuration (Some J) now
              \<and> PrioritySelector_Matches (SourcePriority r) (job_Priority J)))
        \<longrightarrow> job_Priority (escalateJob rules now J) = job_Priority J"
    unfolding a using applyRules_none by blast
  have e: "getWaitingDuration None now = 0"
    "job_CreationTimestamp J = 0 \<longrightarrow> getWaitingDuration (Some J) now = 0"
    "job_CreationTimestamp J \<noteq> 0 \<and> minDuration \<le> now - job_CreationTimestamp J
          \<and> now - job_CreationTimestamp J \<le> maxDuration
        \<longrightarrow> getWaitingDuration (Some J) now = now - job_CreationTimestamp J"
    by (simp_all add: getWaitingDuration_def time_Sub_exact)
  have f: "(\<exists>r \<in> set rules.
            WaitingThreshold r \<le> getWaitingDuration (Some J) now
            \<and> PrioritySelector_Matches (SourcePriority r) (job_Priority J))
        \<longrightarrow> (\<exists>r \<in> set rules.
               WaitingThreshold r \<le> getWaitingDuration (Some J) now
               \<and> PrioritySelector_Matches (SourcePriority r) (job_Priority J)
               \<and> (\<forall>r' \<in> set rules.
                     WaitingThreshold r' \<le> getWaitingDuration (Some J) now
                     \<and> PrioritySelector_Matches (SourcePriority r') (job_Priority J)
                     \<longrightarrow> WaitingThreshold r' \<le> WaitingThreshold r)
               \<and> job_Priority (escalateJob rules now J) = TargetPriority r)"
    unfolding a using applyRules_some_greatest [OF assms] by blast
  from OnSessionOpen_Jobs [of rules now ssn] b c d e f show ?thesis by blast
qed

theorem C3_rule_selection_witness:
  "rulesDescending ladderRules
   \<and> job_Priority (escalateJob ladderRules 1200000000001 (pendingJob ''j'' ''Q'' 10 1)) = 200
   \<and> job_Priority (escalateJob ladderRules 600000000001 (pendingJob ''j'' ''Q'' 10 1)) = 100
   \<and> job_Priority (escalateJob ladderRules 300000000001 (pendingJob ''j'' ''Q'' 10 1)) = 10
   \<and> job_Priority (escalateJob ladderRules 1800000000001 (pendingJob ''j'' ''Q'' 100 1)) = 100"
proof -
  have rules: "ladderRules =
      [\<lparr>WaitingThreshold = 1200000000000, SourcePriority = Some between0to50,
        TargetPriority = 200\<rparr>,
       \<lparr>WaitingThreshold = 600000000000, SourcePriority = Some between0to50,
        TargetPriority = 100\<rparr>]"
    by (simp add: ladderRules_def timePriority_parseArguments_def ladderRawRules_def
        ladderDuration_def sortRules_def)
  have h: "rulesDescending ladderRules"
    by (simp add: rules rulesDescending_def)
  have w: "getWaitingDuration (Some (pendingJob ''j'' ''Q'' p 1)) 1200000000001 = 1200000000000"
    "getWaitingDuration (Some (pendingJob ''j'' ''Q'' p 1)) 600000000001 = 600000000000"
    "getWaitingDuration (Some (pendingJob ''j'' ''Q'' p 1)) 300000000001 = 300000000000"
    "getWaitingDuration (Some (pendingJob ''j'' ''Q'' p 1)) 1800000000001 = 1800000000000" for p
    by (simp_all add: getWaitingDuration_def time_Sub_def pendingJob_def minDuration_def
        maxDuration_def)
  have m: "PrioritySelector_Matches (Some between0to50) 10"
    "\<not> PrioritySelector_Matches (Some between0to50) 100"
    by (simp_all add: PrioritySelector_Matches_def PriorityExpression_Matches_def
        between0to50_def OperatorIn_def OperatorNotIn_def OperatorBetween_def
        word_sle_eq word_sless_alt)
  have p: "job_Priority (pendingJob ''j'' ''Q'' q 1) = q" for q
    by (simp add: pendingJob_def)
  show ?thesis
    using h
      C3_rule_selection [OF h, of 1200000000001 "\<lparr>Jobs = []\<rparr>" "pendingJob ''j'' ''Q'' 10 1"]
      C3_rule_selection [OF h, of 600000000001 "\<lparr>Jobs = []\<rparr>" "pendingJob ''j'' ''Q'' 10 1"]
      C3_rule_selection [OF h, of 300000000001 "\<lparr>Jobs = []\<rparr>" "pendingJob ''j'' ''Q'' 10 1"]
      C3_rule_selection [OF h, of 1800000000001 "\<lparr>Jobs = []\<rparr>" "pendingJob ''j'' ''Q'' 100 1"]
    by (simp add: rules w m p)
qed

text \<open>
  The host builds every session afresh, and nothing of a session outlives it: a job enters
  each session with its own priority and creation timestamp, and the pass of that session
  escalates it from there. Two successive sessions are therefore two passes over the same
  jobs, at instants \<open>now1 \<le> now2\<close>.
\<close>

lemma applyRules_result:
  "applyRules rules w p = p
   \<or> (\<exists>r \<in> set rules. WaitingThreshold r \<le> w \<and> PrioritySelector_Matches (SourcePriority r) p
         \<and> applyRules rules w p = TargetPriority r)"
  by (induction rules) auto

lemma applyRules_mono:
  assumes raise: "\<forall>r \<in> set rules. PrioritySelector_Matches (SourcePriority r) p
              \<longrightarrow> p <=s TargetPriority r"
    and ordered: "\<forall>r \<in> set rules. \<forall>r' \<in> set rules.
              PrioritySelector_Matches (SourcePriority r) p
              \<and> PrioritySelector_Matches (SourcePriority r') p
              \<and> WaitingThreshold r' \<le> WaitingThreshold r
              \<longrightarrow> TargetPriority r' <=s TargetPriority r"
    and w: "w1 \<le> w2"
  shows "applyRules rules w1 p <=s applyRules rules w2 p"
  using raise ordered
proof (induction rules)
  case Nil
  then show ?case by simp
next
  case (Cons x xs)
  have IH: "applyRules xs w1 p <=s applyRules xs w2 p"
    using Cons by simp
  show ?case
  proof (cases "WaitingThreshold x \<le> w2 \<and> PrioritySelector_Matches (SourcePriority x) p")
    case False
    with w have "\<not> (WaitingThreshold x \<le> w1 \<and> PrioritySelector_Matches (SourcePriority x) p)"
      by auto
    with False IH show ?thesis by auto
  next
    case True
    then have r2: "applyRules (x # xs) w2 p = TargetPriority x" by simp
    show ?thesis
    proof (cases "WaitingThreshold x \<le> w1")
      case True
      with \<open>WaitingThreshold x \<le> w2 \<and> PrioritySelector_Matches (SourcePriority x) p\<close>
      have "applyRules (x # xs) w1 p = TargetPriority x" by simp
      with r2 show ?thesis by simp
    next
      case False
      then have r1: "applyRules (x # xs) w1 p = applyRules xs w1 p" by simp
      from applyRules_result [of xs w1 p] show ?thesis
      proof
        assume "applyRules xs w1 p = p"
        with r1 r2 True Cons.prems(1) show ?thesis by simp
      next
        assume "\<exists>r \<in> set xs. WaitingThreshold r \<le> w1
            \<and> PrioritySelector_Matches (SourcePriority r) p
            \<and> applyRules xs w1 p = TargetPriority r"
        then obtain r where r: "r \<in> set xs" "WaitingThreshold r \<le> w1"
          "PrioritySelector_Matches (SourcePriority r) p"
          "applyRules xs w1 p = TargetPriority r" by blast
        from r(2) False have "WaitingThreshold r \<le> WaitingThreshold x" by simp
        with Cons.prems(2) r(1,3) True have "TargetPriority r <=s TargetPriority x" by simp
        with r1 r2 r(4) show ?thesis by simp
      qed
    qed
  qed
qed

lemma time_Sub_mono: "t1 \<le> t2 \<Longrightarrow> time_Sub t1 u \<le> time_Sub t2 u"
  by (simp add: time_Sub_def minDuration_def maxDuration_def)

lemma getWaitingDuration_mono:
  "now1 \<le> now2 \<Longrightarrow> getWaitingDuration job now1 \<le> getWaitingDuration job now2"
  by (cases job) (simp_all add: getWaitingDuration_def time_Sub_mono)


lemma applyRules_raises:
  assumes "\<forall>r \<in> set rules. \<forall>q. PrioritySelector_Matches (SourcePriority r) q
              \<longrightarrow> q <=s TargetPriority r"
  shows "p <=s applyRules rules w p"
  using assms by (induction rules) auto

lemma escalateJob_raises:
  assumes "\<forall>r \<in> set rules. \<forall>q. PrioritySelector_Matches (SourcePriority r) q
              \<longrightarrow> q <=s TargetPriority r"
  shows "job_Priority J <=s job_Priority (escalateJob rules now J)"
  using applyRules_raises [OF assms] by (simp add: escalateJob_def)

text \<open>
  C5, as stated, fails: nothing relates the target of a rule to the targets of the other
  rules or to the priorities its source selector matches. With the rules
  (10m, In [100], 200) and (20m, In [100, 200], 50), a job of priority 100 created at
  instant 1 has priority 200 in a session at 10m and priority 50 in the next session, at
  20m.
\<close>

theorem C5_later_session_lower_counterexample:
  "Jobs (timePriority_OnSessionOpen loweringRules 600000000001 loweringSession)
     = [(''j'', pendingJob ''j'' ''Q'' 200 1)]
   \<and> Jobs (timePriority_OnSessionOpen loweringRules 1200000000001 loweringSession)
     = [(''j'', pendingJob ''j'' ''Q'' 50 1)]
   \<and> (600000000001 :: time) \<le> 1200000000001
   \<and> (50 :: int32) <s 200"
  by (simp add: loweringRules_def timePriority_parseArguments_def loweringRawRules_def
      ladderDuration_def sortRules_def loweringSession_def timePriority_OnSessionOpen_def
      escalateJob_def getWaitingDuration_def time_Sub_def pendingJob_def minDuration_def
      maxDuration_def PrioritySelector_Matches_def PriorityExpression_Matches_def
      OperatorIn_def word_sless_alt)

text \<open>
  C5, amended. Let every rule's target be at least every priority that its source
  selector matches, and let, among rules whose source selectors match a common priority,
  a rule of greater or equal threshold have a greater or equal target. Then for sessions
  at instants \<open>now1 \<le> now2\<close> every job's priority in the first session is at least
  its own priority, and its priority in the second session is at least that in the first.
\<close>

theorem C5_priority_non_decreasing_when_targets_ordered:
  assumes raise: "\<forall>r \<in> set rules. \<forall>q. PrioritySelector_Matches (SourcePriority r) q
              \<longrightarrow> q <=s TargetPriority r"
    and ordered: "\<forall>r \<in> set rules. \<forall>r' \<in> set rules. \<forall>q.
              PrioritySelector_Matches (SourcePriority r) q
              \<and> PrioritySelector_Matches (SourcePriority r') q
              \<and> WaitingThreshold r' \<le> WaitingThreshold r
              \<longrightarrow> TargetPriority r' <=s TargetPriority r"
    and now: "now1 \<le> now2"
  shows "job_Priority J <=s job_Priority (escalateJob rules now1 J)
    \<and> job_Priority (escalateJob rules now1 J) <=s job_Priority (escalateJob rules now2 J)
    \<and> list_all2 (\<lambda>(jid, J1) (jid', J2). jid' = jid \<and> job_Priority J1 <=s job_Priority J2)
         (Jobs (timePriority_OnSessionOpen rules now1 ssn))
         (Jobs (timePriority_OnSessionOpen rules now2 ssn))"
proof -
  have step: "job_Priority (escalateJob rules now1 K) <=s job_Priority (escalateJob rules now2 K)"
    for K
  proof -
    have a: "\<forall>r \<in> set rules. PrioritySelector_Matches (SourcePriority r) (job_Priority K)
              \<longrightarrow> job_Priority K <=s TargetPriority r"
      using raise by blast
    have b: "\<forall>r \<in> set rules. \<forall>r' \<in> set rules.
              PrioritySelector_Matches (SourcePriority r) (job_Priority K)
              \<and> PrioritySelector_Matches (SourcePriority r') (job_Priority K)
              \<and> WaitingThreshold r' \<le> WaitingThreshold r
              \<longrightarrow> TargetPriority r' <=s TargetPriority r"
      using ordered by blast
    have c: "getWaitingDuration (Some K) now1 \<le> getWaitingDuration (Some K) now2"
      by (rule getWaitingDuration_mono [OF now])
    show ?thesis
      unfolding escalateJob_def using applyRules_mono [OF a b c] by simp
  qed
  have base: "job_Priority J <=s job_Priority (escalateJob rules now1 J)"
    by (rule escalateJob_raises [OF raise])
  have all: "list_all2 (\<lambda>(jid, J1) (jid', J2). jid' = jid \<and> job_Priority J1 <=s job_Priority J2)
         (Jobs (timePriority_OnSessionOpen rules now1 ssn))
         (Jobs (timePriority_OnSessionOpen rules now2 ssn))"
    unfolding OnSessionOpen_Jobs list_all2_map1 list_all2_map2
    by (rule list_all2_refl) (auto simp: step)
  from base step all show ?thesis by blast
qed

theorem C5_priority_non_decreasing_when_targets_ordered_witness:
  "(600000000001 :: time) \<le> 1200000000001
   \<and> Jobs (timePriority_OnSessionOpen ladderRules 600000000001 ladderSession)
       = [(''j'', pendingJob ''j'' ''Q'' 100 1)]
   \<and> Jobs (timePriority_OnSessionOpen ladderRules 1200000000001 ladderSession)
       = [(''j'', pendingJob ''j'' ''Q'' 200 1)]
   \<and> list_all2 (\<lambda>(jid, J1) (jid', J2). jid' = jid \<and> job_Priority J1 <=s job_Priority J2)
       (Jobs (timePriority_OnSessionOpen ladderRules 600000000001 ladderSession))
       (Jobs (timePriority_OnSessionOpen ladderRules 1200000000001 ladderSession))"
proof -
  have rules: "ladderRules =
      [\<lparr>WaitingThreshold = 1200000000000, SourcePriority = Some between0to50,
        TargetPriority = 200\<rparr>,
       \<lparr>WaitingThreshold = 600000000000, SourcePriority = Some between0to50,
        TargetPriority = 100\<rparr>]"
    by (simp add: ladderRules_def timePriority_parseArguments_def ladderRawRules_def
        ladderDuration_def sortRules_def)
  have m: "PrioritySelector_Matches (Some between0to50) q \<longleftrightarrow> 0 <=s q \<and> q <=s 50" for q
    by (simp add: PrioritySelector_Matches_def PriorityExpression_Matches_def
        between0to50_def OperatorIn_def OperatorNotIn_def OperatorBetween_def
        word_sle_eq word_sless_alt)
  have h1: "\<forall>r \<in> set ladderRules. \<forall>q. PrioritySelector_Matches (SourcePriority r) q
              \<longrightarrow> q <=s TargetPriority r"
    by (simp add: rules m word_sle_eq)
  have h2: "\<forall>r \<in> set ladderRules. \<forall>r' \<in> set ladderRules. \<forall>q.
              PrioritySelector_Matches (SourcePriority r) q
              \<and> PrioritySelector_Matches (SourcePriority r') q
              \<and> WaitingThreshold r' \<le> WaitingThreshold r
              \<longrightarrow> TargetPriority r' <=s TargetPriority r"
    by (simp add: rules m word_sle_eq)
  have h3: "(600000000001 :: time) \<le> 1200000000001" by simp
  have e: "Jobs (timePriority_OnSessionOpen ladderRules 600000000001 ladderSession)
       = [(''j'', pendingJob ''j'' ''Q'' 100 1)]"
    "Jobs (timePriority_OnSessionOpen ladderRules 1200000000001 ladderSession)
       = [(''j'', pendingJob ''j'' ''Q'' 200 1)]"
    by (simp_all add: rules m ladderSession_def timePriority_OnSessionOpen_def
      escalateJob_def getWaitingDuration_def time_Sub_def pendingJob_def minDuration_def
      maxDuration_def word_sle_eq)
  show ?thesis
    using C5_priority_non_decreasing_when_targets_ordered [OF h1 h2 h3, of _ ladderSession] e
    by simp
qed

text \<open>
  Were the second session handed the priority that the first one left, the job of the
  counterexample would still end at 50, and the first condition alone would keep a
  priority from decreasing.
\<close>

lemma lowering_rules_carried_over:
  "Jobs (timePriority_OnSessionOpen loweringRules 1200000000001
           (timePriority_OnSessionOpen loweringRules 600000000001 loweringSession))
     = [(''j'', pendingJob ''j'' ''Q'' 50 1)]"
  by (simp add: loweringRules_def timePriority_parseArguments_def loweringRawRules_def
      ladderDuration_def sortRules_def loweringSession_def timePriority_OnSessionOpen_def
      escalateJob_def getWaitingDuration_def time_Sub_def pendingJob_def minDuration_def
      maxDuration_def PrioritySelector_Matches_def PriorityExpression_Matches_def
      OperatorIn_def word_sless_alt)

lemma carried_over_priority_non_decreasing:
  assumes "\<forall>r \<in> set rules. \<forall>q. PrioritySelector_Matches (SourcePriority r) q
              \<longrightarrow> q <=s TargetPriority r"
  shows "job_Priority (escalateJob rules now1 J)
           <=s job_Priority (escalateJob rules now2 (escalateJob rules now1 J))"
  by (rule escalateJob_raises [OF assms])

section \<open>Preemption\<close>

text \<open>The code's test for a timed-out task is the specification's, and the loop is a filter.\<close>

lemma isTaskTimedOut_iff:
  assumes "pd [] = None"
  shows "isTaskTimedOut pd cfg (Some v) now \<longleftrightarrow> timedOutVictim pd cfg now v"
  using assms
  by (auto simp: isTaskTimedOut_def timedOutVictim_def split: option.splits)

lemma sle_iff_not_sless: "a <=s b \<longleftrightarrow> \<not> b <s (a :: int32)"
  by (simp add: word_sle_eq word_sless_alt not_less)

lemma victimsLoop_filter:
  assumes "pd [] = None" "lookupJob ssn (task_Job T) = Some aj"
    "\<forall>v \<in> set V. lookupJob ssn (task_Job v) \<noteq> None"
  shows "victimsLoop pd cfg gate ssn now T (Some aj) V acc
           = Inr (acc @ filter (eligibleVictim pd cfg gate ssn now T) V)"
  using assms
proof (induction V arbitrary: acc)
  case Nil
  then show ?case by simp
next
  case (Cons v V)
  from Cons.prems obtain vj where vj: "lookupJob ssn (task_Job v) = Some vj" by auto
  have IH: "victimsLoop pd cfg gate ssn now T (Some aj) V acc'
           = Inr (acc' @ filter (eligibleVictim pd cfg gate ssn now T) V)" for acc'
    using Cons.IH [of acc'] Cons.prems by simp
  have step: "victimsLoop pd cfg gate ssn now T (Some aj) (v # V) acc
           = victimsLoop pd cfg gate ssn now T (Some aj) V
               (if eligibleVictim pd cfg gate ssn now T v then acc @ [v] else acc)"
    using vj Cons.prems(1,2)
    by (auto simp: isTaskTimedOut_iff eligibleVictim_def Let_def sle_iff_not_sless)
  show ?case
    unfolding step IH by simp
qed

text \<open>
  C1, as stated, fails: it speaks of every preemptor and every list of candidates, and a
  candidate whose job id is not in the session's job map makes \<open>preemptableFn\<close> panic
  rather than return. The candidate below is timed out, hence eligible by the table, but
  the log line of the timed-out branch reads the priority of its job through \<open>nil\<close>.
\<close>

theorem C1_timed_out_absent_job_counterexample:
  "lookupJob preemptSession (task_Job overdueStrayTask) = None
   \<and> eligibleVictim sampleDuration preemptConfig (Preemptible preemptConfig) preemptSession
        10000000000000 preemptorTask overdueStrayTask
   \<and> preemptableFn sampleDuration preemptConfig preemptSession 10000000000000 preemptorTask
        [overdueStrayTask] = Inl NilPointerDereference"
  by (simp add: preemptableFn_def isTaskTimedOut_def eligibleVictim_def timedOutVictim_def
      overdueStrayTask_def lookupJob_def preemptSession_def preemptConfig_def
      parseArguments_def sampleDuration_def)

text \<open>
  C1, amended. Let the job ids of the preemptor \<open>T\<close> and of every candidate of \<open>V\<close> be
  present in the session's job map, and let \<open>time.ParseDuration\<close> reject the empty
  string, as it does. Then \<open>preemptableFn\<close> returns \<open>Permit\<close> with the candidates of
  \<open>V\<close> that are eligible by the table, in their order: a subset of \<open>V\<close>, in which a
  candidate occurs exactly when it is eligible.
\<close>

theorem C1_preemptable_eligibility:
  assumes "pd [] = None"
    and "lookupJob ssn (task_Job T) \<noteq> None"
    and "\<forall>v \<in> set V. lookupJob ssn (task_Job v) \<noteq> None"
  shows "\<exists>victims.
           preemptableFn pd cfg ssn now T V = Inr (victims, Permit)
           \<and> victims = filter (eligibleVictim pd cfg (Preemptible cfg) ssn now T) V
           \<and> set victims \<subseteq> set V
           \<and> (\<forall>v. v \<in> set victims \<longleftrightarrow>
                 v \<in> set V \<and> eligibleVictim pd cfg (Preemptible cfg) ssn now T v)"
proof -
  from assms(2) obtain aj where aj: "lookupJob ssn (task_Job T) = Some aj" by auto
  show ?thesis
    using victimsLoop_filter [where pd = pd and ssn = ssn and T = T and aj = aj and V = V
        and cfg = cfg and gate = "Preemptible cfg" and now = now and acc = "[]"]
      assms(1) aj assms(3)
    by (auto simp: preemptableFn_def)
qed

theorem C1_preemptable_eligibility_witness:
  "sampleDuration [] = None
   \<and> lookupJob preemptSession (task_Job preemptorTask) \<noteq> None
   \<and> preemptableFn sampleDuration preemptConfig preemptSession 10000000000000 preemptorTask
        [overdueTask, highTask, lowTask]
      = Inr ([overdueTask, lowTask], Permit)"
proof -
  have h1: "sampleDuration [] = None" by (simp add: sampleDuration_def)
  have h2: "lookupJob preemptSession (task_Job preemptorTask) \<noteq> None"
    by (simp add: lookupJob_def preemptSession_def preemptorTask_def)
  have h3: "\<forall>v \<in> set [overdueTask, highTask, lowTask].
              lookupJob preemptSession (task_Job v) \<noteq> None"
    by (simp add: lookupJob_def preemptSession_def overdueTask_def highTask_def lowTask_def)
  have e: "eligibleVictim sampleDuration preemptConfig (Preemptible preemptConfig) preemptSession
             10000000000000 preemptorTask overdueTask"
    "\<not> eligibleVictim sampleDuration preemptConfig (Preemptible preemptConfig) preemptSession
             10000000000000 preemptorTask highTask"
    "eligibleVictim sampleDuration preemptConfig (Preemptible preemptConfig) preemptSession
             10000000000000 preemptorTask lowTask"
    by (simp_all add: eligibleVictim_def timedOutVictim_def preemptConfig_def parseArguments_def
        sampleDuration_def overdueTask_def highTask_def lowTask_def preemptorTask_def
        lookupJob_def preemptSession_def pendingJob_def PrioritySelector_Matches_def
        PriorityExpression_Matches_def OperatorIn_def OperatorNotIn_def OperatorBetween_def
        OperatorLt_def word_sless_alt)
  from C1_preemptable_eligibility
         [where pd = sampleDuration and cfg = preemptConfig and now = 10000000000000,
          OF h1 h2 h3] h1 h2 e
  show ?thesis by auto
qed

section \<open>Unexpected inputs\<close>



text \<open>The loop panics exactly when its body does on some candidate.\<close>

lemma victimsLoop_panics_iff:
  "(\<exists>e. victimsLoop pd cfg gate ssn now T actorJob V acc = Inl e) \<longleftrightarrow>
     (\<exists>v \<in> set V. bodyPanics pd cfg gate ssn now actorJob v)"
proof (induction V arbitrary: acc)
  case Nil
  then show ?case by simp
next
  case (Cons v V)
  have step: "(bodyPanics pd cfg gate ssn now actorJob v
        \<and> victimsLoop pd cfg gate ssn now T actorJob (v # V) acc = Inl NilPointerDereference)
     \<or> (\<not> bodyPanics pd cfg gate ssn now actorJob v
        \<and> (\<exists>acc'. victimsLoop pd cfg gate ssn now T actorJob (v # V) acc
                    = victimsLoop pd cfg gate ssn now T actorJob V acc'))"
    by (auto simp: bodyPanics_def Let_def split: option.splits)
  then show ?case
  proof
    assume "bodyPanics pd cfg gate ssn now actorJob v
        \<and> victimsLoop pd cfg gate ssn now T actorJob (v # V) acc = Inl NilPointerDereference"
    then show ?thesis by auto
  next
    assume a: "\<not> bodyPanics pd cfg gate ssn now actorJob v
        \<and> (\<exists>acc'. victimsLoop pd cfg gate ssn now T actorJob (v # V) acc
                    = victimsLoop pd cfg gate ssn now T actorJob V acc')"
    then obtain acc' where e: "victimsLoop pd cfg gate ssn now T actorJob (v # V) acc
                    = victimsLoop pd cfg gate ssn now T actorJob V acc'" by blast
    show ?thesis unfolding e Cons.IH [of acc'] using a by auto
  qed
qed



section \<open>group-quota\<close>

text \<open>
  The comparator returns -1 when the left job's group is not over quota and the right
  one's is, 1 in the reverse case, and 0 otherwise.
\<close>

lemma jobOrderFn_cases:
  "jobOrderFn overQuota key l r =
     (if \<not> overQuota (getJobGroup l key) \<and> overQuota (getJobGroup r key) then - 1
      else if overQuota (getJobGroup l key) \<and> \<not> overQuota (getJobGroup r key) then 1
      else 0)"
  by (simp add: jobOrderFn_def Let_def)

text \<open>
  Scenario 4 of the specification: team a holds one CPU against a quota of one CPU, so a
  job of team a comes after a job of team b, and a job with no annotation before a job of
  team a.
\<close>

lemma groupquota_scenario_team_a_over_quota:
  "groupquota_OnSessionOpen belowMinResource ''team'' [(''cpu'', 1)] teamASession
     (groupJob ''A'' [(''team'', ''a'')] None) (groupJob ''B'' [(''team'', ''b'')] None) = 1
   \<and> groupquota_OnSessionOpen belowMinResource ''team'' [(''cpu'', 1)] teamASession
     (groupJob ''N'' [] None) (groupJob ''A'' [(''team'', ''a'')] None) = - 1"
  by (simp add: groupquota_OnSessionOpen_def jobOrderFn_def overQuotaGroups_def
      sessionJobs_def teamASession_def groupJob_def isJobAllocated_def belowMinResource_def
      oneCpu_def addResourceList_def quantityOf_def toInt64_def truncateTowardsZero_def getJobGroup_def
      ResourceCPU_def ResourceMemory_def)

text \<open>
  C4. The comparator follows the over-quota flags of the two jobs' groups, but a job
  without the annotation is given the empty group name, which is also the group of a job
  whose annotation is present with the empty string as its value. Here a running job whose
  annotation \<open>team\<close> is the empty string holds one CPU against a quota of one CPU: the
  job \<open>N\<close>, which has no annotation, is ranked as over quota, after the job \<open>B\<close> of
  team b.
\<close>

theorem C4_unannotated_job_ranked_over_quota:
  "job_PodGroup (groupJob ''N'' [] None) = Some \<lparr>pg_Annotations = []\<rparr>
   \<and> groupquota_OnSessionOpen belowMinResource ''team'' [(''cpu'', 1)] emptyNameSession
        (groupJob ''N'' [] None) (groupJob ''B'' [(''team'', ''b'')] None) = 1
   \<and> groupquota_OnSessionOpen belowMinResource ''team'' [(''cpu'', 1)] emptyNameSession
        (groupJob ''B'' [(''team'', ''b'')] None) (groupJob ''N'' [] None) = - 1"
  by (simp add: groupquota_OnSessionOpen_def jobOrderFn_def overQuotaGroups_def
      sessionJobs_def emptyNameSession_def groupJob_def isJobAllocated_def belowMinResource_def
      oneCpu_def addResourceList_def quantityOf_def toInt64_def truncateTowardsZero_def getJobGroup_def
      ResourceCPU_def ResourceMemory_def)

end
